theory Spec2Isabelle
  imports Main
begin

section \<open>JavaScript strings\<close>

text \<open>
  The text a provider returns is a JavaScript string, kept as the list of its UTF-16 code
  units, because \<^verbatim>\<open>String.prototype.trim\<close> and the regular expression class \<^verbatim>\<open>\s\<close> look at
  code units: they match the white space and the line terminators of ECMAScript, that is
  tab, line feed, vertical tab, form feed, carriage return, space, U+00A0, U+1680,
  U+2000 to U+200A, U+2028, U+2029, U+202F, U+205F, U+3000 and U+FEFF. \<open>js\<close> writes an
  ASCII literal as such a text.
\<close>

type_synonym jstext = "nat list"

definition js :: "string \<Rightarrow> jstext" where
  "js s = map of_char s"

definition isSpace :: "nat \<Rightarrow> bool" where
  "isSpace u =
     (u \<in> set [0x09, 0x0A, 0x0B, 0x0C, 0x0D, 0x20, 0xA0, 0x1680, 0x2028, 0x2029, 0x202F,
                0x205F, 0x3000, 0xFEFF]
      \<or> (0x2000 \<le> u \<and> u \<le> 0x200A))"

definition trimEnd :: "jstext \<Rightarrow> jstext" where
  "trimEnd s = rev (dropWhile isSpace (rev s))"

definition trim :: "jstext \<Rightarrow> jstext" where
  "trim s = trimEnd (dropWhile isSpace s)"

section \<open>Model registry (services/modelRegistry.ts)\<close>

text \<open>
  The enumerations of \<^verbatim>\<open>types.ts\<close>. A \<^verbatim>\<open>ModelProvider\<close> is a string enum; its string
  value is \<open>provider_value\<close>.
\<close>

datatype ModelProvider = GEMINI | GROQ | DEEPSEEK | MISTRAL | OPENROUTER | HUGGINGFACE

fun provider_value :: "ModelProvider \<Rightarrow> string" where
  "provider_value GEMINI = ''gemini''"
| "provider_value GROQ = ''groq''"
| "provider_value DEEPSEEK = ''deepseek''"
| "provider_value MISTRAL = ''mistral''"
| "provider_value OPENROUTER = ''openrouter''"
| "provider_value HUGGINGFACE = ''huggingface''"

datatype TaskType =
  planning | writing | editing | critique | synthesis | image_generation | quick_response

record ModelConfig =
  provider :: ModelProvider
  modelId :: string
  displayName :: string
  description :: string
  strengths :: "string list"
  isAvailable :: bool

text \<open>
  \<^verbatim>\<open>MODEL_REGISTRY\<close> is a module-level array whose entries are mutated in place; the model
  passes the array explicitly. This is its value when the module is loaded.
\<close>

definition MODEL_REGISTRY :: "ModelConfig list" where
  "MODEL_REGISTRY =
    [\<lparr>provider = GEMINI, modelId = ''gemini-2.5-flash'', displayName = ''Gemini 2.5 Flash'',
      description = ''Balanced speed and quality, supports image generation'',
      strengths = [''images'', ''balanced'', ''multimodal''], isAvailable = True\<rparr>,
     \<lparr>provider = GEMINI, modelId = ''gemini-1.5-pro'', displayName = ''Gemini 1.5 Pro'',
      description = ''Long context (1M tokens), best for complex documents'',
      strengths = [''long_context'', ''reasoning'', ''analysis''], isAvailable = True\<rparr>,
     \<lparr>provider = GROQ, modelId = ''llama-3.3-70b-versatile'', displayName = ''Llama 3.3 70B (Groq)'',
      description = ''Ultra-fast inference, strong general capabilities'',
      strengths = [''speed'', ''reasoning'', ''general''], isAvailable = False\<rparr>,
     \<lparr>provider = GROQ, modelId = ''mixtral-8x7b-32768'', displayName = ''Mixtral 8x7B (Groq)'',
      description = ''Fast, multilingual, 32k context'',
      strengths = [''speed'', ''multilingual'', ''balanced''], isAvailable = False\<rparr>,
     \<lparr>provider = DEEPSEEK, modelId = ''deepseek-chat'', displayName = ''DeepSeek V3'',
      description = ''Excellent reasoning and coding capabilities'',
      strengths = [''reasoning'', ''coding'', ''analysis'', ''planning''], isAvailable = False\<rparr>,
     \<lparr>provider = MISTRAL, modelId = ''mistral-large-latest'', displayName = ''Mistral Large'',
      description = ''High quality text generation, excellent for prose'',
      strengths = [''writing'', ''prose'', ''creative'', ''quality''], isAvailable = False\<rparr>,
     \<lparr>provider = MISTRAL, modelId = ''mistral-small-latest'', displayName = ''Mistral Small'',
      description = ''Efficient, good for quick tasks'',
      strengths = [''speed'', ''efficiency'', ''quick_tasks''], isAvailable = False\<rparr>]"

fun TASK_MODEL_PRIORITY :: "TaskType \<Rightarrow> ModelProvider list" where
  "TASK_MODEL_PRIORITY planning = [DEEPSEEK, GEMINI, MISTRAL]"
| "TASK_MODEL_PRIORITY writing = [MISTRAL, DEEPSEEK, GEMINI]"
| "TASK_MODEL_PRIORITY editing = [GROQ, MISTRAL, GEMINI]"
| "TASK_MODEL_PRIORITY critique = [DEEPSEEK, GEMINI, MISTRAL]"
| "TASK_MODEL_PRIORITY synthesis = [DEEPSEEK, GEMINI, MISTRAL]"
| "TASK_MODEL_PRIORITY image_generation = [GEMINI]"
| "TASK_MODEL_PRIORITY quick_response = [GROQ, GEMINI, MISTRAL]"

subsection \<open>Provider instances\<close>

text \<open>
  An \<^verbatim>\<open>AIProvider\<close> object, seen from the registry: its name, whether it holds a credential
  (\<^verbatim>\<open>isConfigured()\<close>, fixed by the constructor) and its \<^verbatim>\<open>generateText\<close>. The latter
  is a network call: the model gives every provider an answer for its first, second, ...
  call (\<open>Inl msg\<close> when the call throws an error with message \<open>msg\<close>, \<open>Inr text\<close> when it
  returns \<open>text\<close>). The calls made so far are recorded, in order, in a trace of provider
  names; the text of the prompt is not part of the model, the answers being arbitrary.
\<close>

record AIProvider =
  name :: ModelProvider
  isConfigured :: bool
  generateText :: "nat \<Rightarrow> string + jstext"

type_synonym calls = "ModelProvider list"

definition callGenerateText :: "AIProvider \<Rightarrow> calls \<Rightarrow> (string + jstext) \<times> calls" where
  "callGenerateText p tr = (generateText p (count_list tr (name p)), tr @ [name p])"

text \<open>
  \<^verbatim>\<open>providerInstances\<close> is a JavaScript \<^verbatim>\<open>Map\<close>: it iterates in insertion order, and
  setting an existing key keeps the key's position.
\<close>

fun registerProvider :: "AIProvider \<Rightarrow> AIProvider list \<Rightarrow> AIProvider list" where
  "registerProvider p [] = [p]"
| "registerProvider p (q # qs) =
     (if name q = name p then p # qs else q # registerProvider p qs)"

definition getProvider :: "ModelProvider \<Rightarrow> AIProvider list \<Rightarrow> AIProvider option" where
  "getProvider n insts = find (\<lambda>p. name p = n) insts"

fun getAvailableProviders :: "AIProvider list \<Rightarrow> ModelProvider list" where
  "getAvailableProviders [] = []"
| "getAvailableProviders (p # ps) =
     (if isConfigured p then name p # getAvailableProviders ps else getAvailableProviders ps)"

subsection \<open>selectBestModel\<close>

definition findAvailableModel :: "ModelConfig list \<Rightarrow> ModelProvider \<Rightarrow> ModelConfig option" where
  "findAvailableModel reg p = find (\<lambda>m. provider m = p \<and> isAvailable m) reg"

fun preferredLoop ::
  "ModelConfig list \<Rightarrow> ModelProvider list \<Rightarrow> ModelProvider list \<Rightarrow> ModelConfig option" where
  "preferredLoop reg availableProviders [] = None"
| "preferredLoop reg availableProviders (preferredProvider # rest) =
     (if List.member availableProviders preferredProvider then
        (case findAvailableModel reg preferredProvider of
           Some model \<Rightarrow> Some model
         | None \<Rightarrow> preferredLoop reg availableProviders rest)
      else preferredLoop reg availableProviders rest)"

fun fallbackLoop :: "ModelConfig list \<Rightarrow> ModelProvider list \<Rightarrow> ModelConfig option" where
  "fallbackLoop reg [] = None"
| "fallbackLoop reg (p # rest) =
     (case findAvailableModel reg p of
        Some model \<Rightarrow> Some model
      | None \<Rightarrow> fallbackLoop reg rest)"

definition selectBestModel ::
  "ModelConfig list \<Rightarrow> TaskType \<Rightarrow> ModelProvider list \<Rightarrow> ModelConfig option" where
  "selectBestModel reg taskType availableProviders =
     (case preferredLoop reg availableProviders (TASK_MODEL_PRIORITY taskType) of
        Some model \<Rightarrow> Some model
      | None \<Rightarrow> fallbackLoop reg availableProviders)"

subsection \<open>generateWithBestModel\<close>

datatype error =
    NoProvidersConfigured
  | NoSuitableModel TaskType
  | ProviderNotInitialized ModelProvider
  | ProviderError string
  | AllProvidersFailed "string list"
  | TypeError
  | FirstOf error error

text \<open>
  The result is \<open>Inl e\<close> when the promise rejects with \<open>e\<close> and \<open>Inr (text, modelUsed)\<close> when
  it resolves; the second component is the trace of \<^verbatim>\<open>generateText\<close> calls after the call.
  Error messages and the other strings of the program are kept as byte strings: nothing
  below looks at their white space.
\<close>

definition modelUsedOf :: "ModelConfig list \<Rightarrow> ModelProvider \<Rightarrow> string" where
  "modelUsedOf reg targetProvider =
     (case find (\<lambda>m. provider m = targetProvider) reg of
        Some model \<Rightarrow>
          (if displayName model \<noteq> [] then displayName model else provider_value targetProvider)
      | None \<Rightarrow> provider_value targetProvider)"

definition callTarget ::
  "AIProvider list \<Rightarrow> ModelConfig list \<Rightarrow> ModelProvider \<Rightarrow> calls
     \<Rightarrow> (error + jstext \<times> string) \<times> calls" where
  "callTarget insts reg targetProvider tr =
     (case getProvider targetProvider insts of
        None \<Rightarrow> (Inl (ProviderNotInitialized targetProvider), tr)
      | Some p \<Rightarrow>
          (case callGenerateText p tr of
             (Inl msg, tr') \<Rightarrow> (Inl (ProviderError msg), tr')
           | (Inr text, tr') \<Rightarrow> (Inr (text, modelUsedOf reg targetProvider), tr')))"

definition generateWithBestModel ::
  "AIProvider list \<Rightarrow> ModelConfig list \<Rightarrow> TaskType \<Rightarrow> ModelProvider option \<Rightarrow> calls
     \<Rightarrow> (error + jstext \<times> string) \<times> calls" where
  "generateWithBestModel insts reg taskType preferredProvider tr =
     (let available = getAvailableProviders insts in
      if length available = 0 then (Inl NoProvidersConfigured, tr)
      else
        (case (case preferredProvider of
                 Some pp \<Rightarrow> if List.member available pp then Some pp else None
               | None \<Rightarrow> None) of
           Some pp \<Rightarrow> callTarget insts reg pp tr
         | None \<Rightarrow>
             (case selectBestModel reg taskType available of
                None \<Rightarrow> (Inl (NoSuitableModel taskType), tr)
              | Some bestModel \<Rightarrow> callTarget insts reg (provider bestModel) tr)))"

subsection \<open>updateModelAvailability\<close>

fun updateModelAvailability ::
  "ModelProvider \<Rightarrow> bool \<Rightarrow> ModelConfig list \<Rightarrow> ModelConfig list" where
  "updateModelAvailability p b [] = []"
| "updateModelAvailability p b (model # rest) =
     (if provider model = p then model\<lparr>isAvailable := b\<rparr> else model)
       # updateModelAvailability p b rest"

section \<open>Generation with fallback (the agent orchestrator)\<close>

text \<open>\<^verbatim>\<open>Set.prototype.add\<close> on a set kept in insertion order, and \<^verbatim>\<open>xs.forEach(p => set.add(p))\<close>.\<close>

definition setAdd :: "'a \<Rightarrow> 'a list \<Rightarrow> 'a list" where
  "setAdd p s = (if List.member s p then s else s @ [p])"

definition addAll :: "'a list \<Rightarrow> 'a list \<Rightarrow> 'a list" where
  "addAll xs s = fold setAdd xs s"

definition tryOrderOf :: "ModelProvider list option \<Rightarrow> ModelProvider list \<Rightarrow> ModelProvider list" where
  "tryOrderOf preferredProviders available =
     (let tryOrderSet = [];
          tryOrderSet = (case preferredProviders of
                           None \<Rightarrow> tryOrderSet
                         | Some ps \<Rightarrow> addAll (filter (\<lambda>p. List.member available p) ps) tryOrderSet);
          tryOrderSet = addAll available tryOrderSet
      in tryOrderSet)"

text \<open>
  The inner loop \<^verbatim>\<open>for (let attempt = 1; attempt <= 2; attempt++)\<close>. A call that returns
  text with a code unit other than white space ends the whole function with that text; a
  call that returns anything else goes to the next attempt; a call that throws appends
  \<^verbatim>\<open>`${providerName}: ${errMsg}`\<close> to \<^verbatim>\<open>errors\<close> (and may wait a second, which is not
  modelled) and goes to the next attempt. The result is the returned text if any, the
  errors and the trace.
\<close>

function attemptLoop ::
  "AIProvider \<Rightarrow> nat \<Rightarrow> string list \<Rightarrow> calls \<Rightarrow> jstext option \<times> string list \<times> calls" where
  "attemptLoop p attempt errors tr =
     (if attempt \<le> 2 then
        (case callGenerateText p tr of
           (Inr text, tr') \<Rightarrow>
             (if text \<noteq> [] \<and> trim text \<noteq> [] then (Some text, errors, tr')
              else attemptLoop p (attempt + 1) errors tr')
         | (Inl errMsg, tr') \<Rightarrow>
             attemptLoop p (attempt + 1)
               (errors @ [provider_value (name p) @ '': '' @ errMsg]) tr')
      else (None, errors, tr))"
  by pat_completeness auto
termination
  by (relation "measure (\<lambda>(p, attempt, errors, tr). 3 - attempt)") auto

declare attemptLoop.simps [simp del]

fun providerLoop ::
  "AIProvider list \<Rightarrow> ModelProvider list \<Rightarrow> string list \<Rightarrow> calls
     \<Rightarrow> (error + jstext \<times> ModelProvider) \<times> calls" where
  "providerLoop insts [] errors tr = (Inl (AllProvidersFailed errors), tr)"
| "providerLoop insts (providerName # rest) errors tr =
     (case getProvider providerName insts of
        None \<Rightarrow> providerLoop insts rest errors tr
      | Some p \<Rightarrow>
          (case attemptLoop p 1 errors tr of
             (Some text, errors', tr') \<Rightarrow> (Inr (text, providerName), tr')
           | (None, errors', tr') \<Rightarrow> providerLoop insts rest errors' tr'))"

definition generateWithFallback ::
  "AIProvider list \<Rightarrow> ModelProvider list option \<Rightarrow> calls
     \<Rightarrow> (error + jstext \<times> ModelProvider) \<times> calls" where
  "generateWithFallback insts preferredProviders tr =
     (let available = getAvailableProviders insts in
      if length available = 0 then (Inl NoProvidersConfigured, tr)
      else providerLoop insts (tryOrderOf preferredProviders available) [] tr)"

text \<open>A provider whose every call fails (throws, or returns no text), and one whose every
  call returns text.\<close>

definition failedAnswer :: "string + jstext \<Rightarrow> bool" where
  "failedAnswer r = (case r of Inl msg \<Rightarrow> True | Inr text \<Rightarrow> text = [] \<or> trim text = [])"

definition alwaysFails :: "AIProvider \<Rightarrow> bool" where
  "alwaysFails p = (\<forall>n. failedAnswer (generateText p n))"

definition alwaysSucceeds :: "AIProvider \<Rightarrow> bool" where
  "alwaysSucceeds p = (\<forall>n. \<not> failedAnswer (generateText p n))"

section \<open>Values, strings and JSON\<close>

text \<open>
  The values that \<^verbatim>\<open>JSON.parse\<close> returns, with \<^verbatim>\<open>undefined\<close> for the result of reading a
  property that is not there. An object is the list of its own properties, each key once.
  A number is kept as its rendering \<^verbatim>\<open>String(n)\<close>: the orchestrator only ever renders a
  number or tests it for truth, and a number from JSON is falsy exactly when it is a zero,
  which renders as \<^verbatim>\<open>0\<close>. The strings inside a value are kept as byte strings (UTF-8):
  the orchestrator only tests them for emptiness, compares them with ASCII constants,
  concatenates them and searches them for \<^verbatim>\<open>chapter\<close>.
\<close>

datatype jsval =
    JUndefined
  | JNull
  | JBool bool
  | JNum string
  | JStr string
  | JArr "jsval list"
  | JObj "(string \<times> jsval) list"

text \<open>
  \<^verbatim>\<open>v.key\<close>, for the keys the orchestrator reads (\<^verbatim>\<open>tasks\<close>, \<^verbatim>\<open>role\<close>, \<^verbatim>\<open>description\<close>,
  \<^verbatim>\<open>title\<close>, \<^verbatim>\<open>content\<close>, \<^verbatim>\<open>approved\<close>, \<^verbatim>\<open>status\<close>, \<^verbatim>\<open>issues\<close>, \<^verbatim>\<open>style_guide\<close>), none of
  which is a property of a prototype: a \<^verbatim>\<open>TypeError\<close> on \<^verbatim>\<open>null\<close> and \<^verbatim>\<open>undefined\<close>, the
  property of an object if it has it, \<^verbatim>\<open>undefined\<close> otherwise.
\<close>

fun getProp :: "jsval \<Rightarrow> string \<Rightarrow> error + jsval" where
  "getProp JUndefined key = Inl TypeError"
| "getProp JNull key = Inl TypeError"
| "getProp (JObj props) key = Inr (case map_of props key of Some v \<Rightarrow> v | None \<Rightarrow> JUndefined)"
| "getProp v key = Inr JUndefined"

fun truthy :: "jsval \<Rightarrow> bool" where
  "truthy JUndefined = False"
| "truthy JNull = False"
| "truthy (JBool b) = b"
| "truthy (JNum n) = (n \<noteq> ''0'')"
| "truthy (JStr s) = (s \<noteq> [])"
| "truthy (JArr xs) = True"
| "truthy (JObj props) = True"

fun isArray :: "jsval \<Rightarrow> bool" where
  "isArray (JArr xs) = True"
| "isArray v = False"

fun elements :: "jsval \<Rightarrow> jsval list" where
  "elements (JArr xs) = xs"
| "elements v = []"

text \<open>\<^verbatim>\<open>String(v)\<close>, which is also what a template literal does, and \<^verbatim>\<open>xs.join(sep)\<close>.\<close>

fun toStr :: "jsval \<Rightarrow> string"
  and joinWith :: "string \<Rightarrow> jsval list \<Rightarrow> string"
  and joinElem :: "jsval \<Rightarrow> string" where
  "toStr JUndefined = ''undefined''"
| "toStr JNull = ''null''"
| "toStr (JBool b) = (if b then ''true'' else ''false'')"
| "toStr (JNum n) = n"
| "toStr (JStr s) = s"
| "toStr (JArr xs) = joinWith '','' xs"
| "toStr (JObj props) = ''[object Object]''"
| "joinWith sep [] = []"
| "joinWith sep [x] = joinElem x"
| "joinWith sep (x # y # ys) = joinElem x @ sep @ joinWith sep (y # ys)"
| "joinElem JUndefined = []"
| "joinElem JNull = []"
| "joinElem (JBool b) = toStr (JBool b)"
| "joinElem (JNum n) = toStr (JNum n)"
| "joinElem (JStr s) = toStr (JStr s)"
| "joinElem (JArr xs) = toStr (JArr xs)"
| "joinElem (JObj props) = toStr (JObj props)"

text \<open>
  \<^verbatim>\<open>s.toLowerCase()\<close> on the ASCII letters, and \<^verbatim>\<open>s.includes(sub)\<close>. The lower-case form of
  a character outside ASCII contains none of the letters of \<^verbatim>\<open>chapter\<close> (the only ASCII
  letters that arise so are \<^verbatim>\<open>k\<close>, from the Kelvin sign, and \<^verbatim>\<open>i\<close>, from the dotted capital
  I), and the bytes of such a character in UTF-8 are not ASCII, so whether the lower-case
  form includes \<^verbatim>\<open>chapter\<close> is decided by the ASCII letters alone.
\<close>

definition lowerChar :: "char \<Rightarrow> char" where
  "lowerChar c =
     (case map_of (zip ''ABCDEFGHIJKLMNOPQRSTUVWXYZ'' ''abcdefghijklmnopqrstuvwxyz'') c of
        Some l \<Rightarrow> l
      | None \<Rightarrow> c)"

definition toLowerCase :: "string \<Rightarrow> string" where
  "toLowerCase s = map lowerChar s"

definition startsWith :: "'a list \<Rightarrow> 'a list \<Rightarrow> bool" where
  "startsWith s sub = (take (length sub) s = sub)"

definition endsWith :: "'a list \<Rightarrow> 'a list \<Rightarrow> bool" where
  "endsWith s sub = (length sub \<le> length s \<and> drop (length s - length sub) s = sub)"

fun includes_str :: "string \<Rightarrow> string \<Rightarrow> bool" where
  "includes_str [] sub = (sub = [])"
| "includes_str (c # cs) sub = (startsWith (c # cs) sub \<or> includes_str cs sub)"

text \<open>The decimal rendering of a length, as a template literal gives it.\<close>

function showNat :: "nat \<Rightarrow> string" where
  "showNat n =
     (if n < 10 then [''0123456789'' ! n]
      else showNat (n div 10) @ [''0123456789'' ! (n mod 10)])"
  by pat_completeness auto
termination
  by (relation "measure id") auto

declare showNat.simps [simp del]

subsection \<open>safeParseJSON\<close>

text \<open>
  \<^verbatim>\<open>s.replace(/^lit\s*/, '')\<close> for a literal \<open>lit\<close>, and \<^verbatim>\<open>s.replace(/\s*```$/, '')\<close>: the
  leftmost match of the latter starts at the white space that precedes a closing fence.
\<close>

definition stripLeading :: "jstext \<Rightarrow> jstext \<Rightarrow> jstext" where
  "stripLeading lit s =
     (if startsWith s lit then dropWhile isSpace (drop (length lit) s) else s)"

definition stripClosingFence :: "jstext \<Rightarrow> jstext" where
  "stripClosingFence s =
     (if endsWith s (js ''```'') then trimEnd (take (length s - 3) s) else s)"

definition cleanText :: "jstext \<Rightarrow> jstext" where
  "cleanText text =
     trim (stripClosingFence (stripLeading (js ''```'') (stripLeading (js ''```json'') text)))"

text \<open>
  \<^verbatim>\<open>JSON.parse\<close> belongs to the language, not to the repository: it is a parameter, \<open>None\<close>
  where it throws. Whatever is thrown inside the \<^verbatim>\<open>try\<close> is caught, so the function has no
  error result.
\<close>

definition safeParseJSON :: "(jstext \<Rightarrow> jsval option) \<Rightarrow> jstext \<Rightarrow> jsval \<Rightarrow> jsval" where
  "safeParseJSON JSON_parse text fallback =
     (if text = [] then fallback
      else (case JSON_parse (cleanText text) of
              Some v \<Rightarrow> v
            | None \<Rightarrow> fallback))"



section \<open>The multi-agent workflow (runMultiAgentWorkflow)\<close>

text \<open>
  The data of \<^verbatim>\<open>types.ts\<close> that the workflow reads and writes. Of a blueprint, the
  characters, locations and items only feed the text of prompts, which is not modelled.
  Of an \<^verbatim>\<open>AgentLog\<close>, the random \<^verbatim>\<open>id\<close>, the \<^verbatim>\<open>timestamp\<close> and the free-text \<^verbatim>\<open>metadata\<close> are
  left out; of a \<^verbatim>\<open>ContentBlock\<close>, the random \<^verbatim>\<open>id\<close> and the \<^verbatim>\<open>revisionHistory\<close>, which is
  always empty. The \<^verbatim>\<open>agent\<close> of a log entry is a value, since the workflow passes
  \<^verbatim>\<open>task.role\<close> as it came from JSON.
\<close>

datatype SectionType = chapter_t | scene_t

record BlueprintSection =
  sectionTitle :: string
  sectionDescription :: string
  sectionType :: SectionType

record Blueprint =
  genre :: "string option"
  tone :: "string option"
  sections :: "BlueprintSection list"
  personaId :: "string option"

record Project =
  blueprint :: "Blueprint option"

datatype LogStatus = thinking | working | success | failed | warning

record AgentLog =
  agent :: jsval
  message :: string
  status :: LogStatus
  modelUsed :: "ModelProvider option"

abbreviation ARCHITECT :: jsval where "ARCHITECT \<equiv> JStr ''ARCHITECT''"
abbreviation WRITER :: jsval where "WRITER \<equiv> JStr ''WRITER''"
abbreviation VISIONARY :: jsval where "VISIONARY \<equiv> JStr ''VISIONARY''"
abbreviation CRITIC :: jsval where "CRITIC \<equiv> JStr ''CRITIC''"
abbreviation PROJECT_MANAGER :: jsval where "PROJECT_MANAGER \<equiv> JStr ''PROJECT_MANAGER''"
abbreviation CONSISTENCY_CHECKER :: jsval where
  "CONSISTENCY_CHECKER \<equiv> JStr ''CONSISTENCY_CHECKER''"

datatype BlockType = TEXT | IMAGE | NOTE | CHAPTER | PLAN | ARTIFACT

datatype BlockStatus = DRAFT | PENDING_REVIEW | APPROVED | NEEDS_REVISION

record BlockMetadata =
  agentSignature :: string
  blockModelUsed :: ModelProvider
  prompt :: string
  title :: jsval
  chapterNumber :: "nat option"

record ContentBlock =
  blockType :: BlockType
  content :: string
  blockStatus :: BlockStatus
  metadata :: BlockMetadata

text \<open>
  The \<^verbatim>\<open>log\<close> closure builds one entry and hands it to the \<^verbatim>\<open>onLog\<close> callback. Each part
  of the workflow below returns the entries it has handed over, in order.
\<close>

definition log :: "jsval \<Rightarrow> string \<Rightarrow> LogStatus \<Rightarrow> ModelProvider option \<Rightarrow> AgentLog" where
  "log a msg st used = \<lparr>agent = a, message = msg, status = st, modelUsed = used\<rparr>"

text \<open>
  The calls of \<^verbatim>\<open>generateWithFallback\<close> that a run makes: the architect's and the
  visionary's, and for the task at position \<open>i\<close> of the plan the writer's, the critic's and
  the consistency checker's. Two of them are started together and awaited by
  \<^verbatim>\<open>Promise.all\<close>, so that their \<^verbatim>\<open>generateText\<close> calls interleave in an order that depends on
  the network. The model therefore does not number the answers of a provider along the
  whole run: \<open>insts r\<close> is \<^verbatim>\<open>providerInstances\<close> as the call \<open>r\<close> finds it, each provider
  there answering the first, second, ... attempt that \<open>r\<close> makes on it; and the provider
  calls of a run are recorded per call of \<^verbatim>\<open>generateWithFallback\<close>, in the order in which
  these are started, each with its own sequence of attempts.
\<close>

datatype Request =
    ArchitectCall
  | VisionaryCall
  | WriterCall nat
  | CriticCall nat
  | ConsistencyCall nat

type_synonym providers = "Request \<Rightarrow> AIProvider list"

type_synonym invocation = "Request \<times> calls"

subsection \<open>Agent personas (agentPersonas.ts)\<close>

record AgentPersona =
  persona_id :: string
  persona_name :: string

definition AGENT_PERSONAS :: "AgentPersona list" where
  "AGENT_PERSONAS =
    [\<lparr>persona_id = ''standard_vibe'', persona_name = ''Standard Vibe''\<rparr>,
     \<lparr>persona_id = ''fantasy_worldbuilder'', persona_name = ''Fantasy Worldbuilder''\<rparr>,
     \<lparr>persona_id = ''noir_detective'', persona_name = ''Noir Detective''\<rparr>,
     \<lparr>persona_id = ''scifi_futurist'', persona_name = ''Sci-Fi Futurist''\<rparr>,
     \<lparr>persona_id = ''romance_poet'', persona_name = ''Romance Poet''\<rparr>,
     \<lparr>persona_id = ''horror_maestro'', persona_name = ''Horror Maestro''\<rparr>,
     \<lparr>persona_id = ''young_adult'', persona_name = ''YA Voice''\<rparr>]"

definition getPersonaById :: "string option \<Rightarrow> AgentPersona" where
  "getPersonaById pid =
     (case (case pid of
              None \<Rightarrow> None
            | Some i \<Rightarrow> find (\<lambda>p. persona_id p = i) AGENT_PERSONAS) of
        Some p \<Rightarrow> p
      | None \<Rightarrow> \<lparr>persona_id = ''standard_vibe'', persona_name = ''Standard Vibe''\<rparr>)"

subsection \<open>Planning phase\<close>

text \<open>
  With a blueprint on the project, the plan is built from the sections of type chapter,
  one task object each. (The fourth parameter of the function, \<^verbatim>\<open>blueprint\<close>, is not read
  by the code: the blueprint is \<^verbatim>\<open>project.blueprint\<close>.)
\<close>

definition optStr :: "string option \<Rightarrow> string" where
  "optStr v = (case v of None \<Rightarrow> ''undefined'' | Some s \<Rightarrow> s)"

fun sectionTypeStr :: "SectionType \<Rightarrow> string" where
  "sectionTypeStr chapter_t = ''chapter''"
| "sectionTypeStr scene_t = ''scene''"

definition blueprintTask :: "Blueprint \<Rightarrow> BlueprintSection \<Rightarrow> jsval" where
  "blueprintTask bp s =
     JObj [(''role'', JStr ''WRITER''),
           (''description'', JStr (''Write '' @ sectionTitle s @ ''. '' @ sectionDescription s)),
           (''context_script'',
              JStr (''Genre: '' @ optStr (genre bp) @ '', Tone: '' @ optStr (tone bp)
                    @ ''. Structure this as a '' @ sectionTypeStr (sectionType s) @ ''.'')),
           (''title'', JStr (sectionTitle s))]"

definition blueprintPlan :: "Blueprint \<Rightarrow> jsval list" where
  "blueprintPlan bp =
     map (blueprintTask bp) (filter (\<lambda>s. sectionType s = chapter_t) (sections bp))"

text \<open>
  The outcome of planning: \<open>Inl e\<close> when an exception \<open>e\<close> escapes to the \<^verbatim>\<open>catch\<close> of
  the workflow, \<open>Inr None\<close> at \<^verbatim>\<open>return []\<close>, \<open>Inr (Some tasks)\<close> when execution goes on with
  \<^verbatim>\<open>plan.tasks\<close>; with it, the entries logged and the calls of \<^verbatim>\<open>generateWithFallback\<close> made.

  Without a blueprint the architect's and the visionary's call are started and awaited
  together: the workflow goes on only if both resolved. When one rejects, its error
  reaches the \<^verbatim>\<open>catch\<close>; when both reject, the error of the one that rejected first does,
  which the program does not determine: \<open>FirstOf e e'\<close> stands for one of the two.
\<close>

type_synonym planning_result =
  "(error + jsval list option) \<times> AgentLog list \<times> invocation list"

text \<open>What follows the two answers: the plan is parsed and checked, then the style guide.\<close>

definition processPlan ::
  "(jstext \<Rightarrow> jsval option) \<Rightarrow> jstext \<Rightarrow> ModelProvider \<Rightarrow> jstext \<Rightarrow> ModelProvider
     \<Rightarrow> (error + jsval list option) \<times> AgentLog list" where
  "processPlan JSON_parse architectText architectProvider visionaryText visionaryProvider =
     (let plan = safeParseJSON JSON_parse architectText (JObj [(''tasks'', JArr [])]) in
      case getProp plan ''tasks'' of
        Inl e \<Rightarrow> (Inl e, [])
      | Inr tasks \<Rightarrow>
          if \<not> truthy tasks \<or> \<not> isArray tasks then
            (Inr None, [log ARCHITECT ''Failed to generate a valid plan.'' failed None])
          else
            (let created = log ARCHITECT
                             (''Plan created with '' @ showNat (length (elements tasks))
                                @ '' tasks.'')
                             success (Some architectProvider);
                 visionaryData = safeParseJSON JSON_parse visionaryText (JObj [])
             in case getProp visionaryData ''style_guide'' of
                  Inl e \<Rightarrow> (Inl e, [created])
                | Inr style_guide \<Rightarrow>
                    (Inr (Some (elements tasks)),
                     [created,
                      log VISIONARY ''Style guide established.'' success
                        (Some visionaryProvider)])))"

definition dynamicPlanning :: "(jstext \<Rightarrow> jsval option) \<Rightarrow> providers \<Rightarrow> planning_result" where
  "dynamicPlanning JSON_parse insts =
     (let started =
            [log PROJECT_MANAGER ''Initiating Parallel Planning Phase...'' thinking None,
             log ARCHITECT ''Structuring narrative arc...'' thinking None,
             log VISIONARY ''Defining stylistic palette...'' thinking None];
          (architectResult, architectCalls) =
             generateWithFallback (insts ArchitectCall) (Some [DEEPSEEK, GEMINI, MISTRAL]) [];
          (visionaryResult, visionaryCalls) =
             generateWithFallback (insts VisionaryCall) (Some [GEMINI, GROQ, MISTRAL]) [];
          made = [(ArchitectCall, architectCalls), (VisionaryCall, visionaryCalls)]
      in case architectResult of
           Inl e \<Rightarrow>
             (case visionaryResult of
                Inl e' \<Rightarrow> (Inl (FirstOf e e'), started, made)
              | Inr answer \<Rightarrow> (Inl e, started, made))
         | Inr (architectText, architectProvider) \<Rightarrow>
        (case visionaryResult of
           Inl e \<Rightarrow> (Inl e, started, made)
         | Inr (visionaryText, visionaryProvider) \<Rightarrow>
        (case processPlan JSON_parse architectText architectProvider
                visionaryText visionaryProvider of
           (r, ls) \<Rightarrow> (r, started @ ls, made))))"

definition planningPhase ::
  "(jstext \<Rightarrow> jsval option) \<Rightarrow> providers \<Rightarrow> Project \<Rightarrow> planning_result" where
  "planningPhase JSON_parse insts project =
     (case blueprint project of
        Some bp \<Rightarrow>
          (Inr (Some (blueprintPlan bp)),
           [log ARCHITECT ''Using approved blueprint plan.'' success None], [])
      | None \<Rightarrow> dynamicPlanning JSON_parse insts)"

subsection \<open>Execution phase\<close>

text \<open>"Ensure content is a string": \<^verbatim>\<open>output.content\<close> as it is if a string, joined by
  line feeds if an array, rendered if another truthy value, and empty otherwise.\<close>

definition contentStrOf :: "jsval \<Rightarrow> error + string" where
  "contentStrOf output =
     (case getProp output ''content'' of
        Inl e \<Rightarrow> Inl e
      | Inr c \<Rightarrow>
          Inr (case c of
                 JStr s \<Rightarrow> s
               | JArr xs \<Rightarrow> joinWith [CHR 0x0A] xs
               | _ \<Rightarrow> if truthy c then toStr c else []))"

text \<open>
  \<^verbatim>\<open>task.description.toLowerCase().includes('chapter') || task.title?.toLowerCase().includes('chapter')\<close>:
  calling \<^verbatim>\<open>toLowerCase\<close> on anything but a string is a \<^verbatim>\<open>TypeError\<close>; the optional chain
  stops at a title that is \<^verbatim>\<open>null\<close> or \<^verbatim>\<open>undefined\<close>; the title is not read when the
  description mentions a chapter.
\<close>

definition mentionsChapter :: "string \<Rightarrow> bool" where
  "mentionsChapter s = includes_str (toLowerCase s) ''chapter''"

definition isChapterOf :: "jsval \<Rightarrow> error + bool" where
  "isChapterOf task =
     (case getProp task ''description'' of
        Inr (JStr d) \<Rightarrow>
          if mentionsChapter d then Inr True
          else (case getProp task ''title'' of
                  Inr JUndefined \<Rightarrow> Inr False
                | Inr JNull \<Rightarrow> Inr False
                | Inr (JStr t) \<Rightarrow> Inr (mentionsChapter t)
                | _ \<Rightarrow> Inl TypeError)
      | _ \<Rightarrow> Inl TypeError)"

text \<open>The string passed as \<^verbatim>\<open>prompt\<close> in the block's metadata, \<^verbatim>\<open>task.description\<close>, which
  is a string once \<open>isChapterOf\<close> has returned; and \<^verbatim>\<open>task.title\<close>.\<close>

definition descriptionOf :: "jsval \<Rightarrow> string" where
  "descriptionOf task = (case getProp task ''description'' of Inr (JStr d) \<Rightarrow> d | _ \<Rightarrow> [])"

definition titleOf :: "jsval \<Rightarrow> jsval" where
  "titleOf task = (case getProp task ''title'' of Inr t \<Rightarrow> t | Inl e \<Rightarrow> JUndefined)"

text \<open>
  The writer's call for the task at position \<open>i\<close> and the string made of its answer:
  \<open>Inl e\<close> when the call rejects or reading \<^verbatim>\<open>output.content\<close> throws, otherwise the content
  string and the provider that answered.
\<close>

definition writerDraft ::
  "(jstext \<Rightarrow> jsval option) \<Rightarrow> providers \<Rightarrow> nat
     \<Rightarrow> (error + string \<times> ModelProvider) \<times> invocation list" where
  "writerDraft JSON_parse insts i =
     (case generateWithFallback (insts (WriterCall i))
             (Some [MISTRAL, DEEPSEEK, GEMINI, GROQ]) [] of
        (Inl e, writerCalls) \<Rightarrow> (Inl e, [(WriterCall i, writerCalls)])
      | (Inr (writerText, writerProvider), writerCalls) \<Rightarrow>
          (let output = safeParseJSON JSON_parse writerText (JObj [(''content'', JStr [])]) in
           case contentStrOf output of
             Inl e \<Rightarrow> (Inl e, [(WriterCall i, writerCalls)])
           | Inr contentStr \<Rightarrow> (Inr (contentStr, writerProvider), [(WriterCall i, writerCalls)])))"

text \<open>
  The validation of a draft: the critic's and the consistency checker's calls (again
  started and awaited together, with \<open>FirstOf\<close> when both reject), then the two
  log entries. Evaluating the arguments of the log calls reads \<^verbatim>\<open>critique.approved\<close> and
  \<^verbatim>\<open>consistency.status\<close>, and \<^verbatim>\<open>consistency.issues?.join(', ')\<close> when the status is
  \<^verbatim>\<open>fail\<close>, each of which can throw.
\<close>

definition reportValidation ::
  "(jstext \<Rightarrow> jsval option) \<Rightarrow> jstext \<Rightarrow> ModelProvider \<Rightarrow> jstext \<Rightarrow> ModelProvider
     \<Rightarrow> error option \<times> AgentLog list" where
  "reportValidation JSON_parse criticText criticProvider consistencyText consistencyProvider =
     (let critiqueData = safeParseJSON JSON_parse criticText (JObj []);
          consistency = safeParseJSON JSON_parse consistencyText (JObj [])
      in case getProp critiqueData ''approved'' of
           Inl e \<Rightarrow> (Some e, [])
         | Inr approved \<Rightarrow>
        (let quality = log CRITIC
                         (''Quality: '' @ (if truthy approved then ''Approved'' else ''Needs Polish''))
                         success (Some criticProvider)
         in case getProp consistency ''status'' of
              Inl e \<Rightarrow> (Some e, [quality])
            | Inr st \<Rightarrow>
                if st = JStr ''fail'' then
                  (case getProp consistency ''issues'' of
                     Inl e \<Rightarrow> (Some e, [quality])
                   | Inr issues \<Rightarrow>
                       if issues = JUndefined \<or> issues = JNull \<or> isArray issues then
                         (None,
                          [quality,
                           log CONSISTENCY_CHECKER ''Consistency Issues Found'' warning
                             (Some consistencyProvider)])
                       else (Some TypeError, [quality]))
                else
                  (None,
                   [quality,
                    log CONSISTENCY_CHECKER ''World Consistency Verified'' success
                      (Some consistencyProvider)])))"

definition validation ::
  "(jstext \<Rightarrow> jsval option) \<Rightarrow> providers \<Rightarrow> nat
     \<Rightarrow> error option \<times> AgentLog list \<times> invocation list" where
  "validation JSON_parse insts i =
     (let started =
            [log CRITIC ''Reviewing quality...'' thinking None,
             log CONSISTENCY_CHECKER ''Verifying world facts...'' thinking None];
          (criticResult, criticCalls) =
             generateWithFallback (insts (CriticCall i)) (Some [GROQ, GEMINI, DEEPSEEK]) [];
          (consistencyResult, consistencyCalls) =
             generateWithFallback (insts (ConsistencyCall i)) (Some [GEMINI, DEEPSEEK]) [];
          made = [(CriticCall i, criticCalls), (ConsistencyCall i, consistencyCalls)]
      in case criticResult of
           Inl e \<Rightarrow>
             (case consistencyResult of
                Inl e' \<Rightarrow> (Some (FirstOf e e'), started, made)
              | Inr answer \<Rightarrow> (Some e, started, made))
         | Inr (criticText, criticProvider) \<Rightarrow>
        (case consistencyResult of
           Inl e \<Rightarrow> (Some e, started, made)
         | Inr (consistencyText, consistencyProvider) \<Rightarrow>
        (case reportValidation JSON_parse criticText criticProvider
                consistencyText consistencyProvider of
           (e, ls) \<Rightarrow> (e, started @ ls, made))))"

text \<open>
  The block pushed for a task, \<^verbatim>\<open>chapterNumber++\<close> included: \<open>Inl TypeError\<close> when
  computing \<^verbatim>\<open>isChapter\<close> throws, otherwise the block and the counter after it.
\<close>

definition makeBlock ::
  "jsval \<Rightarrow> string \<Rightarrow> ModelProvider \<Rightarrow> nat \<Rightarrow> error + ContentBlock \<times> nat" where
  "makeBlock task contentStr writerProvider chapterNo =
     (case isChapterOf task of
        Inl e \<Rightarrow> Inl e
      | Inr isChapter \<Rightarrow>
          Inr (\<lparr>blockType = (if isChapter then CHAPTER else TEXT),
                content = contentStr,
                blockStatus = DRAFT,
                metadata =
                  \<lparr>agentSignature = ''Writer Agent'',
                   blockModelUsed = writerProvider,
                   prompt = descriptionOf task,
                   title = titleOf task,
                   chapterNumber = (if isChapter then Some chapterNo else None)\<rparr>\<rparr>,
               if isChapter then chapterNo + 1 else chapterNo))"

text \<open>
  The body of the loop for the task at position \<open>i\<close>, whose role is \<^verbatim>\<open>WRITER\<close>. The result
  is \<open>Inl e\<close> when it throws, \<open>Inr None\<close> at the \<^verbatim>\<open>continue\<close> for empty content, and otherwise
  the block pushed and the chapter counter after it.
\<close>

definition writerTask ::
  "(jstext \<Rightarrow> jsval option) \<Rightarrow> providers \<Rightarrow> nat \<Rightarrow> jsval \<Rightarrow> nat
     \<Rightarrow> (error + (ContentBlock \<times> nat) option) \<times> AgentLog list \<times> invocation list" where
  "writerTask JSON_parse insts i task chapterNo =
     (case writerDraft JSON_parse insts i of
        (Inl e, made) \<Rightarrow> (Inl e, [], made)
      | (Inr (contentStr, writerProvider), made) \<Rightarrow>
          if contentStr = [] then
            (Inr None, [log WRITER ''Failed to generate content.'' failed None], made)
          else
            (let drafted = log WRITER ''Drafting content complete.'' success (Some writerProvider)
             in case validation JSON_parse insts i of
                  (Some e, ls, made') \<Rightarrow> (Inl e, drafted # ls, made @ made')
                | (None, ls, made') \<Rightarrow>
                    (case makeBlock task contentStr writerProvider chapterNo of
                       Inl e \<Rightarrow> (Inl e, drafted # ls, made @ made')
                     | Inr pushed \<Rightarrow> (Inr (Some pushed), drafted # ls, made @ made'))))"

text \<open>
  The loop \<^verbatim>\<open>for (const task of plan.tasks)\<close>, from the position \<open>i\<close> of its next task,
  the chapter counter, the blocks pushed, the entries logged and the calls made so far.
  The result is the exception that left the loop, if any, with the blocks, the entries
  and the calls at that point.
\<close>

fun executeTasks ::
  "(jstext \<Rightarrow> jsval option) \<Rightarrow> providers \<Rightarrow> nat \<Rightarrow> jsval list \<Rightarrow> nat \<Rightarrow> ContentBlock list
     \<Rightarrow> AgentLog list \<Rightarrow> invocation list
     \<Rightarrow> error option \<times> ContentBlock list \<times> AgentLog list \<times> invocation list" where
  "executeTasks JSON_parse insts i [] chapterNo newBlocks ls made = (None, newBlocks, ls, made)"
| "executeTasks JSON_parse insts i (task # rest) chapterNo newBlocks ls made =
     (case getProp task ''role'' of
        Inl e \<Rightarrow> (Some e, newBlocks, ls, made)
      | Inr role \<Rightarrow>
     (case getProp task ''description'' of
        Inl e \<Rightarrow> (Some e, newBlocks, ls, made)
      | Inr descr \<Rightarrow>
     (let executing = log role (''Executing: '' @ toStr descr) thinking None in
      if role = JStr ''WRITER'' then
        (case writerTask JSON_parse insts i task chapterNo of
           (Inl e, wl, wm) \<Rightarrow> (Some e, newBlocks, ls @ executing # wl, made @ wm)
         | (Inr None, wl, wm) \<Rightarrow>
             executeTasks JSON_parse insts (Suc i) rest chapterNo newBlocks
               (ls @ executing # wl) (made @ wm)
         | (Inr (Some (block, chapterNo')), wl, wm) \<Rightarrow>
             executeTasks JSON_parse insts (Suc i) rest chapterNo' (newBlocks @ [block])
               (ls @ executing # wl) (made @ wm))
      else executeTasks JSON_parse insts (Suc i) rest chapterNo newBlocks
             (ls @ [executing]) made)))"

text \<open>
  The whole function: the blocks it resolves with, the entries it logged and the calls of
  \<^verbatim>\<open>generateWithFallback\<close> it made. An exception from either phase is caught: the workflow
  logs a failure and returns the blocks pushed so far.
\<close>

definition personaEntries :: "Project \<Rightarrow> AgentLog list" where
  "personaEntries project =
     (let persona = getPersonaById (case blueprint project of
                                      None \<Rightarrow> None
                                    | Some bp \<Rightarrow> personaId bp)
      in if persona_id persona \<noteq> ''standard_vibe''
         then [log PROJECT_MANAGER (''Applying Agent Persona: '' @ persona_name persona)
                 success None]
         else [])"

definition workflowError :: AgentLog where
  "workflowError = log PROJECT_MANAGER ''Workflow encountered an error.'' failed None"

definition runMultiAgentWorkflow ::
  "(jstext \<Rightarrow> jsval option) \<Rightarrow> providers \<Rightarrow> Project
     \<Rightarrow> ContentBlock list \<times> AgentLog list \<times> invocation list" where
  "runMultiAgentWorkflow JSON_parse insts project =
     (case planningPhase JSON_parse insts project of
        (Inl e, ls, made) \<Rightarrow> ([], ls @ [workflowError], made)
      | (Inr None, ls, made) \<Rightarrow> ([], ls, made)
      | (Inr (Some tasks), ls, made) \<Rightarrow>
          (case executeTasks JSON_parse insts 0 tasks 1 [] (ls @ personaEntries project) made of
             (Some e, newBlocks, ls', made') \<Rightarrow> (newBlocks, ls' @ [workflowError], made')
           | (None, newBlocks, ls', made') \<Rightarrow> (newBlocks, ls', made')))"

subsection \<open>What is observed of a run\<close>







section \<open>Concrete configurations\<close>

text \<open>
  Provider objects used to run the definitions: one that throws on every call, one that
  returns only white space (a space, U+00A0 and U+3000) on every call, some that return a
  sentence on every call, and two without a credential.
\<close>

definition geminiDown :: AIProvider where
  "geminiDown = \<lparr>name = GEMINI, isConfigured = True, generateText = (\<lambda>n. Inl ''503 overloaded'')\<rparr>"

definition deepseekBlank :: AIProvider where
  "deepseekBlank =
     \<lparr>name = DEEPSEEK, isConfigured = True, generateText = (\<lambda>n. Inr [0x20, 0xA0, 0x3000])\<rparr>"

definition mistralUp :: AIProvider where
  "mistralUp =
     \<lparr>name = MISTRAL, isConfigured = True, generateText = (\<lambda>n. Inr (js ''Once upon a time''))\<rparr>"

definition groqUp :: AIProvider where
  "groqUp = \<lparr>name = GROQ, isConfigured = True, generateText = (\<lambda>n. Inr (js ''Never reached''))\<rparr>"

definition geminiNoKey :: AIProvider where
  "geminiNoKey = \<lparr>name = GEMINI, isConfigured = False, generateText = (\<lambda>n. Inl ''Gemini client not initialized'')\<rparr>"

definition mistralNoKey :: AIProvider where
  "mistralNoKey = \<lparr>name = MISTRAL, isConfigured = False, generateText = (\<lambda>n. Inl ''Mistral API key not configured'')\<rparr>"

definition deepseekUp :: AIProvider where
  "deepseekUp =
     \<lparr>name = DEEPSEEK, isConfigured = True, generateText = (\<lambda>n. Inr (js ''A storm gathered''))\<rparr>"

definition geminiUp :: AIProvider where
  "geminiUp =
     \<lparr>name = GEMINI, isConfigured = True, generateText = (\<lambda>n. Inr (js ''The sea was calm''))\<rparr>"

text \<open>
  For runs of the workflow: Mistral as the one configured provider, giving every call of
  \<^verbatim>\<open>generateWithFallback\<close> the answer that a table assigns to it; a stand-in for
  \<^verbatim>\<open>JSON.parse\<close> that knows the JSON texts used below, with white space around them, and
  rejects every other text; and blueprints.
\<close>

definition answering :: "(Request \<Rightarrow> string + jstext) \<Rightarrow> providers" where
  "answering table r =
     [\<lparr>name = MISTRAL, isConfigured = True, generateText = (\<lambda>n. table r)\<rparr>]"

fun drafts :: "Request \<Rightarrow> string + jstext" where
  "drafts (WriterCall i) = Inr (js ''{\"content\":\"The storm broke.\"}'')"
| "drafts (CriticCall i) = Inr (js ''{\"approved\":true}'')"
| "drafts (ConsistencyCall i) = Inr (js ''{\"status\":\"pass\"}'')"
| "drafts ArchitectCall = Inr (js ''I cannot help with that.'')"
| "drafts VisionaryCall = Inr (js ''{}'')"



fun emptyPlan :: "Request \<Rightarrow> string + jstext" where
  "emptyPlan ArchitectCall = Inr (js ''{\"tasks\":[]}'')"
| "emptyPlan r = drafts r"

definition knownTexts :: "(jstext \<times> jsval) list" where
  "knownTexts =
       [(js ''{\"content\":\"\"}'', JObj [(''content'', JStr [])]),
        (js ''{\"content\":\"The storm broke.\"}'', JObj [(''content'', JStr ''The storm broke.'')]),
        (js ''{\"approved\":true}'', JObj [(''approved'', JBool True)]),
        (js ''{\"status\":\"pass\"}'', JObj [(''status'', JStr ''pass'')]),
        (js ''{\"tasks\":[]}'', JObj [(''tasks'', JArr [])]),
        (js ''{}'', JObj []),
        (js ''null'', JNull)]"

text \<open>
  The white space of the JSON grammar is narrower than the one of \<^verbatim>\<open>trim()\<close>: tab, line
  feed, carriage return and space. \<open>parseKnown\<close> is \<^verbatim>\<open>JSON.parse\<close> restricted to the texts
  above, each with any JSON white space around it; it throws on every other text.
\<close>

definition isJsonSpace :: "nat \<Rightarrow> bool" where
  "isJsonSpace u = (u \<in> set [0x09, 0x0A, 0x0D, 0x20])"

definition parseKnown :: "jstext \<Rightarrow> jsval option" where
  "parseKnown t =
     map_of knownTexts (rev (dropWhile isJsonSpace (rev (dropWhile isJsonSpace t))))"

definition twoChapters :: Blueprint where
  "twoChapters =
     \<lparr>genre = Some ''Adventure'', tone = None,
      sections =
        [\<lparr>sectionTitle = ''Chapter 1: Departure'', sectionDescription = ''The ship leaves port.'',
          sectionType = chapter_t\<rparr>,
         \<lparr>sectionTitle = ''A note on maps'', sectionDescription = ''Shown between the chapters.'',
          sectionType = scene_t\<rparr>,
         \<lparr>sectionTitle = ''Chapter 3: The Storm'', sectionDescription = ''The storm hits.'',
          sectionType = chapter_t\<rparr>],
      personaId = None\<rparr>"



section \<open>Properties of the model registry\<close>

lemma findAvailableModel_None:
  "findAvailableModel reg p = None \<longleftrightarrow> \<not> (\<exists>m\<in>set reg. provider m = p \<and> isAvailable m)"
  by (auto simp: findAvailableModel_def find_None_iff)

lemma findAvailableModel_Some:
  "findAvailableModel reg p = Some m \<Longrightarrow> m \<in> set reg \<and> provider m = p \<and> isAvailable m"
  by (auto simp: findAvailableModel_def find_Some_iff)

lemma fallbackLoop_None:
  "fallbackLoop reg av = None \<longleftrightarrow> (\<forall>p\<in>set av. findAvailableModel reg p = None)"
  by (induction av) (auto split: option.splits)

lemma preferredLoop_Some:
  "preferredLoop reg av ps = Some m \<Longrightarrow> \<exists>p\<in>set av. findAvailableModel reg p = Some m"
  by (induction ps) (auto split: option.splits if_splits)

lemma preferredLoop_None:
  "preferredLoop reg av ps = None \<longleftrightarrow>
     (\<forall>p\<in>set ps. p \<in> set av \<longrightarrow> findAvailableModel reg p = None)"
  by (induction ps) (auto split: option.splits)

text \<open>
  C3, as the code has it. \<^verbatim>\<open>selectBestModel\<close> returns a model exactly when some provider
  of the list passed as \<^verbatim>\<open>availableProviders\<close> has an entry of the registry whose
  \<^verbatim>\<open>isAvailable\<close> flag is set; in particular it returns none for the empty list.
\<close>

theorem selectBestModel_some_iff:
  "selectBestModel reg taskType availableProviders \<noteq> None \<longleftrightarrow>
     (\<exists>p\<in>set availableProviders. \<exists>m\<in>set reg. provider m = p \<and> isAvailable m)"
proof
  assume "selectBestModel reg taskType availableProviders \<noteq> None"
  then obtain m where m: "selectBestModel reg taskType availableProviders = Some m" by auto
  have "\<exists>p\<in>set availableProviders. findAvailableModel reg p \<noteq> None"
  proof (cases "preferredLoop reg availableProviders (TASK_MODEL_PRIORITY taskType)")
    case None
    with m have "fallbackLoop reg availableProviders \<noteq> None"
      by (simp add: selectBestModel_def)
    then show ?thesis unfolding fallbackLoop_None by simp
  next
    case (Some a)
    from preferredLoop_Some[OF this] show ?thesis by auto
  qed
  then show "\<exists>p\<in>set availableProviders. \<exists>m\<in>set reg. provider m = p \<and> isAvailable m"
    unfolding findAvailableModel_None by simp
next
  assume "\<exists>p\<in>set availableProviders. \<exists>m\<in>set reg. provider m = p \<and> isAvailable m"
  then have "fallbackLoop reg availableProviders \<noteq> None"
    unfolding fallbackLoop_None findAvailableModel_None by blast
  then show "selectBestModel reg taskType availableProviders \<noteq> None"
    by (auto simp: selectBestModel_def split: option.splits)
qed

theorem selectBestModel_some_iff_witness:
  "selectBestModel MODEL_REGISTRY writing [MISTRAL, GEMINI] \<noteq> None
   \<and> selectBestModel MODEL_REGISTRY writing [] = None"
  using selectBestModel_some_iff [of MODEL_REGISTRY writing "[MISTRAL, GEMINI]"]
    selectBestModel_some_iff [of MODEL_REGISTRY writing "[]"]
  by (simp add: MODEL_REGISTRY_def)

text \<open>
  C3 as stated fails: a non-empty list of providers does not suffice. With the registry
  as loaded, Mistral's entries are flagged unavailable; and OpenRouter has no entry at
  all, so it gets none even once its provider has reported a credential.
\<close>

theorem selectBestModel_nonempty_counterexample:
  "\<not> (selectBestModel MODEL_REGISTRY writing [MISTRAL] \<noteq> None \<longleftrightarrow> [MISTRAL] \<noteq> [])
   \<and> \<not> (selectBestModel (updateModelAvailability OPENROUTER True MODEL_REGISTRY) writing
            [OPENROUTER] \<noteq> None \<longleftrightarrow> [OPENROUTER] \<noteq> [])"
  by (simp add: selectBestModel_def MODEL_REGISTRY_def findAvailableModel_def)

lemma updateModelAvailability_length:
  "length (updateModelAvailability p b reg) = length reg"
  by (induction reg) auto

lemma updateModelAvailability_nth:
  "i < length reg \<Longrightarrow>
     updateModelAvailability p b reg ! i =
       (if provider (reg ! i) = p then (reg ! i)\<lparr>isAvailable := b\<rparr> else reg ! i)"
  by (induction reg arbitrary: i) (auto simp: nth_Cons split: nat.splits)

text \<open>
  C10. \<^verbatim>\<open>updateModelAvailability(p, b)\<close> keeps the registry's length and order, sets
  \<^verbatim>\<open>isAvailable\<close> to \<open>b\<close> in every entry of provider \<open>p\<close>, leaving the entry's other fields
  as they were, and leaves the entries of every other provider unchanged.
\<close>

theorem updateModelAvailability_frame:
  "length (updateModelAvailability p b reg) = length reg \<and>
   (\<forall>i < length reg.
      (provider (reg ! i) = p \<longrightarrow>
         updateModelAvailability p b reg ! i = (reg ! i)\<lparr>isAvailable := b\<rparr>) \<and>
      (provider (reg ! i) \<noteq> p \<longrightarrow>
         updateModelAvailability p b reg ! i = reg ! i))"
proof (intro conjI allI impI)
  show "length (updateModelAvailability p b reg) = length reg"
    by (rule updateModelAvailability_length)
next
  fix i
  assume i: "i < length reg" and own: "provider (reg ! i) = p"
  from updateModelAvailability_nth[OF i, of p b] own
  show "updateModelAvailability p b reg ! i = (reg ! i)\<lparr>isAvailable := b\<rparr>" by simp
next
  fix i
  assume i: "i < length reg" and other: "provider (reg ! i) \<noteq> p"
  from updateModelAvailability_nth[OF i, of p b] other
  show "updateModelAvailability p b reg ! i = reg ! i" by simp
qed

theorem updateModelAvailability_frame_witness:
  "length (updateModelAvailability MISTRAL True MODEL_REGISTRY) = 7
   \<and> updateModelAvailability MISTRAL True MODEL_REGISTRY ! 5
       = (MODEL_REGISTRY ! 5)\<lparr>isAvailable := True\<rparr>
   \<and> isAvailable (updateModelAvailability MISTRAL True MODEL_REGISTRY ! 5)
   \<and> updateModelAvailability MISTRAL True MODEL_REGISTRY ! 4 = MODEL_REGISTRY ! 4"
  using updateModelAvailability_frame [of MISTRAL True MODEL_REGISTRY]
  by (simp add: MODEL_REGISTRY_def)

section \<open>Properties of generation\<close>

lemma getProvider_name: "getProvider n insts = Some p \<Longrightarrow> name p = n"
  by (auto simp: getProvider_def find_Some_iff)

lemma getProvider_available:
  "n \<in> set (getAvailableProviders insts) \<Longrightarrow> \<exists>p. getProvider n insts = Some p"
  by (induction insts) (auto simp: getProvider_def split: if_splits)

text \<open>
  C9. With no configured provider, \<^verbatim>\<open>generateWithBestModel\<close> rejects with the
  configuration error and the trace of \<^verbatim>\<open>generateText\<close> calls is as it was; so does the
  orchestrator's \<^verbatim>\<open>generateWithFallback\<close>.
\<close>

theorem no_providers_rejects_without_call:
  assumes "getAvailableProviders insts = []"
  shows "generateWithBestModel insts reg taskType preferredProvider tr
           = (Inl NoProvidersConfigured, tr)
         \<and> generateWithFallback insts preferredProviders tr = (Inl NoProvidersConfigured, tr)"
  using assms by (simp add: generateWithBestModel_def generateWithFallback_def)

theorem no_providers_rejects_without_call_witness:
  "getAvailableProviders [geminiNoKey, mistralNoKey] = []
   \<and> generateWithBestModel [geminiNoKey, mistralNoKey] MODEL_REGISTRY writing (Some GEMINI) []
       = (Inl NoProvidersConfigured, [])
   \<and> generateWithFallback [geminiNoKey, mistralNoKey] (Some [MISTRAL, GEMINI]) []
       = (Inl NoProvidersConfigured, [])"
proof -
  have h: "getAvailableProviders [geminiNoKey, mistralNoKey] = []"
    by (simp add: geminiNoKey_def mistralNoKey_def)
  show ?thesis
    using h no_providers_rejects_without_call
      [OF h, of MODEL_REGISTRY writing "Some GEMINI" "[]" "Some [MISTRAL, GEMINI]"]
    by simp
qed

subsection \<open>The attempt loop and the provider loop\<close>

lemma attemptLoop_fails:
  assumes "alwaysFails p"
  shows "\<exists>errors'. attemptLoop p (Suc 0) errors tr = (None, errors', tr @ [name p, name p])"
proof -
  have f: "\<And>n. failedAnswer (generateText p n)" using assms by (simp add: alwaysFails_def)
  have a3: "\<And>e t. attemptLoop p (Suc (Suc (Suc 0))) e t = (None, e, t)"
    by (simp add: attemptLoop.simps)
  have a2: "\<exists>e'. attemptLoop p (Suc (Suc 0)) e t = (None, e', t @ [name p])" for e t
    using f[of "count_list t (name p)"] a3
    by (subst attemptLoop.simps)
      (auto simp: callGenerateText_def failedAnswer_def split: sum.splits)
  show ?thesis
  proof (cases "generateText p (count_list tr (name p))")
    case (Inl msg)
    then show ?thesis
      using a2[of "errors @ [provider_value (name p) @ '': '' @ msg]" "tr @ [name p]"]
      by (subst attemptLoop.simps) (auto simp: callGenerateText_def)
  next
    case (Inr answer)
    with f[of "count_list tr (name p)"] have "answer = [] \<or> trim answer = []"
      by (simp add: failedAnswer_def)
    with Inr show ?thesis
      using a2[of errors "tr @ [name p]"]
      by (subst attemptLoop.simps) (auto simp: callGenerateText_def)
  qed
qed

lemma attemptLoop_succeeds:
  assumes "\<not> failedAnswer (generateText p (count_list tr (name p)))"
  shows "\<exists>answer. generateText p (count_list tr (name p)) = Inr answer \<and> trim answer \<noteq> [] \<and>
           attemptLoop p (Suc 0) errors tr = (Some answer, errors, tr @ [name p])"
  using assms
  by (subst attemptLoop.simps)
    (auto simp: callGenerateText_def failedAnswer_def split: sum.splits)

lemma attemptLoop_first_call:
  "\<exists>r e' rest. attemptLoop p (Suc 0) errors tr = (r, e', tr @ name p # rest)"
proof -
  have a3: "\<And>e t. attemptLoop p (Suc (Suc (Suc 0))) e t = (None, e, t)"
    by (simp add: attemptLoop.simps)
  have a2: "\<exists>r e'. attemptLoop p (Suc (Suc 0)) e t = (r, e', t @ [name p])" for e t
    using a3 by (subst attemptLoop.simps) (auto simp: callGenerateText_def split: sum.splits)
  show ?thesis
  proof (cases "generateText p (count_list tr (name p))")
    case (Inl msg)
    then show ?thesis
      using a2[of "errors @ [provider_value (name p) @ '': '' @ msg]" "tr @ [name p]"]
      by (subst attemptLoop.simps) (auto simp: callGenerateText_def)
  next
    case (Inr answer)
    then show ?thesis
      using a2[of errors "tr @ [name p]"]
      by (subst attemptLoop.simps) (auto simp: callGenerateText_def)
  qed
qed

lemma providerLoop_extends: "\<exists>rest. snd (providerLoop insts ps errors tr) = tr @ rest"
proof (induction ps arbitrary: errors tr)
  case Nil
  then show ?case by simp
next
  case (Cons n ps)
  show ?case
  proof (cases "getProvider n insts")
    case None
    with Cons.IH[of errors tr] show ?thesis by simp
  next
    case (Some p)
    from attemptLoop_first_call[of p errors tr] obtain r e' rest where
      a: "attemptLoop p (Suc 0) errors tr = (r, e', tr @ name p # rest)" by blast
    show ?thesis
    proof (cases r)
      case None
      from Cons.IH[of e' "tr @ name p # rest"] obtain rest' where
        "snd (providerLoop insts ps e' (tr @ name p # rest)) = (tr @ name p # rest) @ rest'"
        by blast
      with Some a None show ?thesis by simp
    next
      case (Some answer)
      with \<open>getProvider n insts = Some p\<close> a show ?thesis by simp
    qed
  qed
qed

lemma providerLoop_failing:
  assumes "\<forall>f\<in>set failing. \<exists>p. getProvider f insts = Some p \<and> alwaysFails p"
  shows "\<exists>errors'. providerLoop insts (failing @ rest) errors tr =
           providerLoop insts rest errors' (tr @ concat (map (\<lambda>f. [f, f]) failing))"
  using assms
proof (induction failing arbitrary: errors tr)
  case Nil
  then show ?case by auto
next
  case (Cons f fs)
  then obtain p where p: "getProvider f insts = Some p" "alwaysFails p" by auto
  then have n: "name p = f" by (simp add: getProvider_name)
  from attemptLoop_fails[OF p(2), of errors tr] obtain e1 where
    e1: "attemptLoop p (Suc 0) errors tr = (None, e1, tr @ [f, f])" using n by auto
  from Cons.IH[of e1 "tr @ [f, f]"] Cons.prems obtain e2 where
    "providerLoop insts (fs @ rest) e1 (tr @ [f, f]) =
       providerLoop insts rest e2 ((tr @ [f, f]) @ concat (map (\<lambda>f. [f, f]) fs))" by auto
  with p e1 show ?case by auto
qed

subsection \<open>The try order\<close>

lemma remdups_snoc: "remdups (ys @ [x]) = filter (\<lambda>y. y \<noteq> x) (remdups ys) @ [x]"
  by (induction ys) auto

lemma addAll_eq: "addAll xs s = s @ rev (remdups (rev (filter (\<lambda>x. x \<notin> set s) xs)))"
proof (induction xs arbitrary: s)
  case Nil
  then show ?case by (simp add: addAll_def)
next
  case (Cons x xs)
  have step: "addAll (x # xs) s = addAll xs (setAdd x s)" by (simp add: addAll_def)
  show ?case
  proof (cases "x \<in> set s")
    case True
    then show ?thesis using Cons.IH[of s] by (simp add: step setAdd_def)
  next
    case False
    have "filter (\<lambda>y. y \<noteq> x) (remdups (rev (filter (\<lambda>x. x \<notin> set s) xs)))
          = remdups (rev (filter (\<lambda>y. y \<notin> set s \<and> y \<noteq> x) xs))"
      by (simp add: remdups_filter rev_filter conj_commute)
    then show ?thesis using False Cons.IH[of "s @ [x]"]
      by (simp add: step setAdd_def remdups_snoc rev_filter[symmetric] conj_commute)
  qed
qed

lemma tryOrderOf_eq:
  "tryOrderOf (Some ps) av =
     rev (remdups (rev (filter (\<lambda>p. p \<in> set av) ps))) @
     rev (remdups (rev (filter (\<lambda>p. p \<notin> set ps) av)))"
proof -
  have "set (rev (remdups (rev (filter (\<lambda>p. p \<in> set av) ps)))) = set ps \<inter> set av" by auto
  then have "filter (\<lambda>x. x \<notin> set (rev (remdups (rev (filter (\<lambda>p. p \<in> set av) ps))))) av
             = filter (\<lambda>p. p \<notin> set ps) av"
    by (metis (mono_tags, lifting) Int_iff filter_cong)
  then show ?thesis
    by (simp add: tryOrderOf_def addAll_eq[of _ "[]"] addAll_eq[of av])
qed

lemma tryOrderOf_None: "tryOrderOf None av = rev (remdups (rev av))"
  by (simp add: tryOrderOf_def addAll_eq)

lemma tryOrderOf_distinct: "distinct (tryOrderOf preferredProviders av)"
  by (cases preferredProviders) (auto simp: tryOrderOf_eq tryOrderOf_None)

lemma tryOrderOf_set: "set (tryOrderOf preferredProviders av) = set av"
  by (cases preferredProviders) (auto simp: tryOrderOf_eq tryOrderOf_None)

lemma fallbackLoop_Some:
  "fallbackLoop reg av = Some m \<Longrightarrow> \<exists>p\<in>set av. findAvailableModel reg p = Some m"
  by (induction av) (auto split: option.splits)

lemma selectBestModel_provider:
  assumes "selectBestModel reg taskType av = Some m"
  shows "provider m \<in> set av"
proof (cases "preferredLoop reg av (TASK_MODEL_PRIORITY taskType)")
  case None
  with assms have "fallbackLoop reg av = Some m" by (simp add: selectBestModel_def)
  from fallbackLoop_Some[OF this] findAvailableModel_Some show ?thesis by blast
next
  case (Some m')
  with assms have "preferredLoop reg av (TASK_MODEL_PRIORITY taskType) = Some m"
    by (simp add: selectBestModel_def)
  from preferredLoop_Some[OF this] findAvailableModel_Some show ?thesis by blast
qed

lemma generateWithBestModel_single_call:
  "(\<exists>made. snd (generateWithBestModel insts reg taskType preferredProvider tr) = tr @ made
            \<and> length made \<le> 1) \<and>
   (\<forall>target. snd (generateWithBestModel insts reg taskType preferredProvider tr) = tr @ [target]
      \<longrightarrow>
        ((preferredProvider = Some target \<and> target \<in> set (getAvailableProviders insts))
         \<or> map_option provider (selectBestModel reg taskType (getAvailableProviders insts))
             = Some target) \<and>
        (\<exists>p. getProvider target insts = Some p \<and>
           fst (generateWithBestModel insts reg taskType preferredProvider tr) =
             (case generateText p (count_list tr target) of
                Inl msg \<Rightarrow> Inl (ProviderError msg)
              | Inr answer \<Rightarrow> Inr (answer, modelUsedOf reg target)))) \<and>
   (\<forall>target.
      (preferredProvider = Some target \<and> target \<in> set (getAvailableProviders insts))
      \<or> ((\<forall>pp. preferredProvider = Some pp \<longrightarrow> pp \<notin> set (getAvailableProviders insts))
         \<and> map_option provider (selectBestModel reg taskType (getAvailableProviders insts))
             = Some target)
      \<longrightarrow> snd (generateWithBestModel insts reg taskType preferredProvider tr) = tr @ [target])"
proof -
  have called: "snd (callTarget insts reg t tr) = tr @ [t]"
    if "t \<in> set (getAvailableProviders insts)" for t
  proof -
    from getProvider_available[OF that] obtain p where p: "getProvider t insts = Some p" by blast
    then have "name p = t" by (rule getProvider_name)
    with p show ?thesis
      by (cases "generateText p (count_list tr t)")
        (simp_all add: callTarget_def callGenerateText_def)
  qed
  have target: "(\<exists>made. snd (callTarget insts reg t tr) = tr @ made \<and> length made \<le> 1) \<and>
      (\<forall>target. snd (callTarget insts reg t tr) = tr @ [target] \<longrightarrow>
         target = t \<and>
         (\<exists>p. getProvider target insts = Some p \<and>
            fst (callTarget insts reg t tr) =
              (case generateText p (count_list tr target) of
                 Inl msg \<Rightarrow> Inl (ProviderError msg)
               | Inr answer \<Rightarrow> Inr (answer, modelUsedOf reg target))))" for t
  proof (cases "getProvider t insts")
    case None
    then show ?thesis by (simp add: callTarget_def)
  next
    case (Some p)
    then have "name p = t" by (rule getProvider_name)
    with Some show ?thesis
      by (cases "generateText p (count_list tr t)")
        (simp_all add: callTarget_def callGenerateText_def)
  qed
  let ?av = "getAvailableProviders insts"
  show ?thesis
  proof (cases "?av = []")
    case True
    have "selectBestModel reg taskType [] \<noteq> Some m" for m
      using selectBestModel_provider[of reg taskType "[]" m] by auto
    with True show ?thesis by (auto simp: generateWithBestModel_def)
  next
    case ne: False
    show ?thesis
    proof (cases "\<exists>pp. preferredProvider = Some pp \<and> pp \<in> set ?av")
      case True
      then obtain pp where pp: "preferredProvider = Some pp" "pp \<in> set ?av" by blast
      with ne have "generateWithBestModel insts reg taskType preferredProvider tr
                      = callTarget insts reg pp tr"
        by (simp add: generateWithBestModel_def)
      with target[of pp] called[of pp] pp show ?thesis by auto
    next
      case False
      then have nopref: "(case preferredProvider of
                   Some pp \<Rightarrow> if List.member ?av pp then Some pp else None
                 | None \<Rightarrow> None) = None"
        by (cases preferredProvider) auto
      show ?thesis
      proof (cases "selectBestModel reg taskType ?av")
        case None
        with ne nopref False show ?thesis by (auto simp: generateWithBestModel_def)
      next
        case (Some bestModel)
        with ne nopref have "generateWithBestModel insts reg taskType preferredProvider tr
                      = callTarget insts reg (provider bestModel) tr"
          by (simp add: generateWithBestModel_def)
        with target[of "provider bestModel"] called[of "provider bestModel"] Some False
          selectBestModel_provider[OF Some]
        show ?thesis by auto
      qed
    qed
  qed
qed

text \<open>
  C1, as the code has it. The fallback over providers is \<^verbatim>\<open>generateWithFallback\<close> of the
  agent orchestrator. If its try order is a run of providers that always fail, then a
  provider \<open>v\<close> that always succeeds, then any others, it returns the text of \<open>v\<close>; every
  failing provider has been called exactly twice and \<open>v\<close> once, so \<open>2 * failing + 1\<close>
  calls are made, and no provider after \<open>v\<close> is called. A provider fails when it throws or
  returns text that is empty after \<^verbatim>\<open>trim()\<close>. \<^verbatim>\<open>generateWithBestModel\<close>, whatever the
  providers do, makes no \<^verbatim>\<open>generateText\<close> call when it selects no provider and exactly one
  when it selects one (the preferred one if configured, else the one of \<^verbatim>\<open>selectBestModel\<close>);
  the call goes to that provider, and the function rejects with that provider's error or
  resolves with that provider's text.
\<close>

theorem generateWithFallback_first_success:
  assumes order: "tryOrderOf preferredProviders (getAvailableProviders insts) = failing @ v # rest"
      and fails: "\<forall>f\<in>set failing. \<exists>p. getProvider f insts = Some p \<and> alwaysFails p"
      and pv: "getProvider v insts = Some pv"
      and succeeds: "alwaysSucceeds pv"
  shows "(\<exists>answer. generateText pv (count_list tr v) = Inr answer \<and>
           generateWithFallback insts preferredProviders tr
             = (Inr (answer, v), tr @ concat (map (\<lambda>f. [f, f]) failing) @ [v]) \<and>
           length (snd (generateWithFallback insts preferredProviders tr))
             = length tr + 2 * length failing + 1) \<and>
         (\<exists>made. snd (generateWithBestModel insts reg taskType preferredProvider tr) = tr @ made
            \<and> length made \<le> 1) \<and>
         (\<forall>target.
            snd (generateWithBestModel insts reg taskType preferredProvider tr) = tr @ [target]
            \<longrightarrow>
              ((preferredProvider = Some target \<and> target \<in> set (getAvailableProviders insts))
               \<or> map_option provider
                     (selectBestModel reg taskType (getAvailableProviders insts)) = Some target) \<and>
              (\<exists>p. getProvider target insts = Some p \<and>
                 fst (generateWithBestModel insts reg taskType preferredProvider tr) =
                   (case generateText p (count_list tr target) of
                      Inl msg \<Rightarrow> Inl (ProviderError msg)
                    | Inr answer \<Rightarrow> Inr (answer, modelUsedOf reg target)))) \<and>
         (\<forall>target.
            (preferredProvider = Some target \<and> target \<in> set (getAvailableProviders insts))
            \<or> ((\<forall>pp. preferredProvider = Some pp
                      \<longrightarrow> pp \<notin> set (getAvailableProviders insts))
               \<and> map_option provider
                     (selectBestModel reg taskType (getAvailableProviders insts)) = Some target)
            \<longrightarrow> snd (generateWithBestModel insts reg taskType preferredProvider tr)
                  = tr @ [target])"
proof -
  let ?tr' = "tr @ concat (map (\<lambda>f. [f, f]) failing)"
  have nonempty: "getAvailableProviders insts \<noteq> []"
    using order tryOrderOf_set[of preferredProviders "getAvailableProviders insts"] by auto
  have "distinct (failing @ v # rest)"
    using tryOrderOf_distinct[of preferredProviders "getAvailableProviders insts"] order by simp
  then have "v \<notin> set failing" by auto
  then have cnt: "count_list ?tr' v = count_list tr v"
    by (induction failing arbitrary: tr) auto
  have nv: "name pv = v" using pv by (rule getProvider_name)
  from providerLoop_failing[OF fails, of "v # rest" "[]" tr] obtain e1 where
    e1: "providerLoop insts (failing @ v # rest) [] tr = providerLoop insts (v # rest) e1 ?tr'"
    by blast
  have "\<not> failedAnswer (generateText pv (count_list ?tr' (name pv)))"
    using succeeds by (simp add: alwaysSucceeds_def)
  from attemptLoop_succeeds[OF this, of e1] obtain answer where
    a: "generateText pv (count_list tr v) = Inr answer"
       "attemptLoop pv (Suc 0) e1 ?tr' = (Some answer, e1, ?tr' @ [v])"
    using nv cnt by auto
  have len: "length (concat (map (\<lambda>f. [f, f]) failing)) = 2 * length failing"
    by (induction failing) auto
  have "generateWithFallback insts preferredProviders tr = (Inr (answer, v), ?tr' @ [v])"
    using nonempty order e1 pv a(2) by (simp add: generateWithFallback_def)
  with a(1) len have "\<exists>answer. generateText pv (count_list tr v) = Inr answer \<and>
           generateWithFallback insts preferredProviders tr
             = (Inr (answer, v), tr @ concat (map (\<lambda>f. [f, f]) failing) @ [v]) \<and>
           length (snd (generateWithFallback insts preferredProviders tr))
             = length tr + 2 * length failing + 1" by auto
  then show ?thesis
    by (rule conjI) (rule generateWithBestModel_single_call)
qed

theorem generateWithFallback_first_success_witness:
  "generateWithFallback [mistralUp, geminiDown, groqUp, deepseekBlank]
     (Some [DEEPSEEK, GEMINI, MISTRAL]) []
   = (Inr (js ''Once upon a time'', MISTRAL), [DEEPSEEK, DEEPSEEK, GEMINI, GEMINI, MISTRAL])
   \<and> generateWithBestModel [mistralUp, geminiDown, groqUp, deepseekBlank] MODEL_REGISTRY
         planning (Some GEMINI) []
       = (Inl (ProviderError ''503 overloaded''), [GEMINI])"
proof -
  let ?insts = "[mistralUp, geminiDown, groqUp, deepseekBlank]"
  have order: "tryOrderOf (Some [DEEPSEEK, GEMINI, MISTRAL]) (getAvailableProviders ?insts)
                 = [DEEPSEEK, GEMINI] @ MISTRAL # [GROQ]"
    by (simp add: tryOrderOf_def addAll_def setAdd_def mistralUp_def geminiDown_def groqUp_def
        deepseekBlank_def)
  have fails: "\<forall>f\<in>set [DEEPSEEK, GEMINI]. \<exists>p. getProvider f ?insts = Some p \<and> alwaysFails p"
    by (simp add: getProvider_def alwaysFails_def failedAnswer_def trim_def trimEnd_def
        isSpace_def mistralUp_def geminiDown_def groqUp_def deepseekBlank_def)
  have pv: "getProvider MISTRAL ?insts = Some mistralUp"
    by (simp add: getProvider_def mistralUp_def)
  have succeeds: "alwaysSucceeds mistralUp"
    by (simp add: alwaysSucceeds_def failedAnswer_def trim_def trimEnd_def isSpace_def
        mistralUp_def js_def)
  have gem: "getProvider GEMINI ?insts = Some geminiDown"
    by (simp add: getProvider_def mistralUp_def geminiDown_def)
  have sel: "Some GEMINI = Some GEMINI \<and> GEMINI \<in> set (getAvailableProviders ?insts)"
    by (simp add: mistralUp_def geminiDown_def groqUp_def deepseekBlank_def)
  note both = generateWithFallback_first_success [OF order fails pv succeeds,
      of "[]" MODEL_REGISTRY planning "Some GEMINI"]
  from both[THEN conjunct1]
  have fb: "generateWithFallback ?insts (Some [DEEPSEEK, GEMINI, MISTRAL]) []
              = (Inr (js ''Once upon a time'', MISTRAL),
                 [DEEPSEEK, DEEPSEEK, GEMINI, GEMINI, MISTRAL])"
    by (simp add: mistralUp_def)
  from both[THEN conjunct2, THEN conjunct2, THEN conjunct2, rule_format, of GEMINI] sel
  have best: "snd (generateWithBestModel ?insts MODEL_REGISTRY planning (Some GEMINI) [])
                = [] @ [GEMINI]"
    by simp
  from both[THEN conjunct2, THEN conjunct2, THEN conjunct1, rule_format, OF best] gem
  have "fst (generateWithBestModel ?insts MODEL_REGISTRY planning (Some GEMINI) [])
      = Inl (ProviderError ''503 overloaded'')"
    by (auto simp: geminiDown_def)
  with best fb show ?thesis by (simp add: prod_eq_iff)
qed

text \<open>
  C1 as stated, of \<^verbatim>\<open>generateWithBestModel\<close>, fails: that function calls the one provider
  it selects, once, and rejects with that provider's error. With Gemini failing and Mistral
  succeeding, both configured, a planning call makes one attempt, on Gemini, and rejects.
\<close>

theorem generateWithBestModel_no_fallback_counterexample:
  "getAvailableProviders [geminiDown, mistralUp] = [GEMINI, MISTRAL]
   \<and> alwaysFails geminiDown \<and> alwaysSucceeds mistralUp
   \<and> generateWithBestModel [geminiDown, mistralUp]
         (updateModelAvailability MISTRAL True MODEL_REGISTRY) planning None []
       = (Inl (ProviderError ''503 overloaded''), [GEMINI])"
  by (simp add: generateWithBestModel_def selectBestModel_def findAvailableModel_def
      callTarget_def getProvider_def callGenerateText_def MODEL_REGISTRY_def
      alwaysFails_def alwaysSucceeds_def failedAnswer_def trim_def trimEnd_def isSpace_def
      js_def geminiDown_def mistralUp_def)


lemma writing_order_two:
  assumes av: "set available = {DEEPSEEK, GEMINI}"
  shows "tryOrderOf (Some (TASK_MODEL_PRIORITY writing)) available = [DEEPSEEK, GEMINI]"
proof -
  have m: "MISTRAL \<notin> set available" "DEEPSEEK \<in> set available" "GEMINI \<in> set available"
    using av by auto
  have f1: "filter (\<lambda>p. p \<in> set available) [MISTRAL, DEEPSEEK, GEMINI] = [DEEPSEEK, GEMINI]"
    using m by simp
  have "\<forall>p\<in>set available. p \<in> set [MISTRAL, DEEPSEEK, GEMINI]"
    using av by simp
  then have f2: "filter (\<lambda>p. p \<notin> set [MISTRAL, DEEPSEEK, GEMINI]) available = []"
    unfolding filter_empty_conv by blast
  show ?thesis
    unfolding tryOrderOf_eq TASK_MODEL_PRIORITY.simps f1 f2 by simp
qed

lemma writing_select_two:
  assumes av: "set available = {DEEPSEEK, GEMINI}"
      and d: "findAvailableModel reg DEEPSEEK \<noteq> None"
  shows "map_option provider (selectBestModel reg writing available) = Some DEEPSEEK"
proof -
  have m: "MISTRAL \<notin> set available" "DEEPSEEK \<in> set available"
    using av by auto
  from d obtain model where model: "findAvailableModel reg DEEPSEEK = Some model" by auto
  then have "provider model = DEEPSEEK" using findAvailableModel_Some by blast
  moreover have "preferredLoop reg available (TASK_MODEL_PRIORITY writing) = Some model"
    using m model by simp
  ultimately show ?thesis by (simp add: selectBestModel_def)
qed

lemma generateWithFallback_first_call:
  assumes order: "tryOrderOf preferredProviders (getAvailableProviders insts) = v # others"
  shows "\<exists>rest. snd (generateWithFallback insts preferredProviders tr) = tr @ v # rest"
proof -
  have "v \<in> set (getAvailableProviders insts)"
    using order tryOrderOf_set[of preferredProviders "getAvailableProviders insts"] by auto
  then have ne: "getAvailableProviders insts \<noteq> []" by auto
  from getProvider_available[OF \<open>v \<in> set (getAvailableProviders insts)\<close>]
  obtain p where p: "getProvider v insts = Some p" by blast
  then have np: "name p = v" by (rule getProvider_name)
  from attemptLoop_first_call[of p "[]" tr] obtain r e' rest where
    a: "attemptLoop p (Suc 0) [] tr = (r, e', tr @ v # rest)" using np by auto
  have g: "generateWithFallback insts preferredProviders tr = providerLoop insts (v # others) [] tr"
    using ne order by (simp add: generateWithFallback_def)
  show ?thesis
  proof (cases r)
    case None
    from providerLoop_extends[of insts others e' "tr @ v # rest"] obtain rest' where
      "snd (providerLoop insts others e' (tr @ v # rest)) = (tr @ v # rest) @ rest'"
      by blast
    with None a p show ?thesis unfolding g by simp
  next
    case (Some answer)
    with a p show ?thesis unfolding g by simp
  qed
qed

text \<open>
  C6. The try order of \<^verbatim>\<open>generateWithFallback\<close> has no duplicates; it is the configured
  providers of the preference list in the list's order (first occurrences), then the
  other configured providers in registry order. With the preference list of writing,
  \<open>[MISTRAL, DEEPSEEK, GEMINI]\<close>, and exactly DeepSeek and Gemini configured, the first
  \<^verbatim>\<open>generateText\<close> call goes to DeepSeek; and \<^verbatim>\<open>selectBestModel\<close> picks a DeepSeek model
  for writing once DeepSeek's entry is flagged available.
\<close>

theorem writing_try_order:
  assumes av: "set (getAvailableProviders insts) = {DEEPSEEK, GEMINI}"
  shows "distinct (tryOrderOf (Some ps) available) \<and>
         tryOrderOf (Some ps) available =
           rev (remdups (rev (filter (\<lambda>p. p \<in> set available) ps))) @
           rev (remdups (rev (filter (\<lambda>p. p \<notin> set ps) available))) \<and>
         tryOrderOf (Some (TASK_MODEL_PRIORITY writing)) (getAvailableProviders insts)
           = [DEEPSEEK, GEMINI] \<and>
         (\<exists>rest. snd (generateWithFallback insts (Some (TASK_MODEL_PRIORITY writing)) tr)
                   = tr @ DEEPSEEK # rest) \<and>
         (findAvailableModel reg DEEPSEEK \<noteq> None \<longrightarrow>
            map_option provider (selectBestModel reg writing (getAvailableProviders insts))
              = Some DEEPSEEK)"
proof -
  note order = writing_order_two[OF av]
  show ?thesis
    using tryOrderOf_distinct[of "Some ps" available] tryOrderOf_eq[of ps available] order
      generateWithFallback_first_call[OF order, of tr] writing_select_two[OF av, of reg]
    by blast
qed

theorem writing_try_order_witness:
  "set (getAvailableProviders [geminiUp, mistralNoKey, deepseekUp]) = {DEEPSEEK, GEMINI}
   \<and> tryOrderOf (Some [MISTRAL, DEEPSEEK, GEMINI]) [GEMINI, DEEPSEEK] = [DEEPSEEK, GEMINI]
   \<and> generateWithFallback [geminiUp, mistralNoKey, deepseekUp] (Some [MISTRAL, DEEPSEEK, GEMINI]) []
       = (Inr (js ''A storm gathered'', DEEPSEEK), [DEEPSEEK])
   \<and> map_option provider
        (selectBestModel (updateModelAvailability DEEPSEEK True MODEL_REGISTRY) writing
           [GEMINI, DEEPSEEK]) = Some DEEPSEEK"
proof -
  have av: "set (getAvailableProviders [geminiUp, mistralNoKey, deepseekUp]) = {DEEPSEEK, GEMINI}"
    by (auto simp: geminiUp_def mistralNoKey_def deepseekUp_def)
  have g: "generateWithFallback [geminiUp, mistralNoKey, deepseekUp]
             (Some [MISTRAL, DEEPSEEK, GEMINI]) []
           = (Inr (js ''A storm gathered'', DEEPSEEK), [DEEPSEEK])"
    by (simp add: generateWithFallback_def tryOrderOf_def addAll_def setAdd_def getProvider_def
        attemptLoop.simps callGenerateText_def trim_def trimEnd_def isSpace_def js_def
        geminiUp_def mistralNoKey_def deepseekUp_def)
  have s: "map_option provider
        (selectBestModel (updateModelAvailability DEEPSEEK True MODEL_REGISTRY) writing
           [GEMINI, DEEPSEEK]) = Some DEEPSEEK"
    by (simp add: selectBestModel_def findAvailableModel_def MODEL_REGISTRY_def)
  from writing_try_order [OF av, of "[MISTRAL, DEEPSEEK, GEMINI]" "[GEMINI, DEEPSEEK]" "[]"
      "updateModelAvailability DEEPSEEK True MODEL_REGISTRY"]
  show ?thesis using av g s by simp
qed
section \<open>Properties of safeParseJSON\<close>

lemma dropWhile_keep: "m \<noteq> [] \<Longrightarrow> \<not> P (hd m) \<Longrightarrow> dropWhile P (m @ b) = m @ b"
  by (cases m) auto

lemma stripEnd_sandwich:
  assumes "\<forall>c\<in>set b. P c" "m \<noteq> []" "\<not> P (last m)"
  shows "rev (dropWhile P (rev (m @ b))) = m"
proof -
  have "dropWhile P (rev b @ rev m) = dropWhile P (rev m)"
    by (rule dropWhile_append2) (use assms(1) in auto)
  also have "\<dots> = rev m"
    using assms(2,3) dropWhile_keep[of "rev m" P "[]"] by (simp add: hd_rev)
  finally show ?thesis by simp
qed

lemma dropWhile_sandwich:
  assumes "\<forall>c\<in>set a. P c" "m \<noteq> []" "\<not> P (hd m)"
  shows "dropWhile P (a @ m @ b) = m @ b"
proof -
  have "dropWhile P (a @ m @ b) = dropWhile P (m @ b)"
    by (rule dropWhile_append2) (use assms(1) in auto)
  then show ?thesis using assms(2,3) by (simp add: dropWhile_keep)
qed

lemma strip_sandwich:
  assumes "\<forall>c\<in>set a. P c" "\<forall>c\<in>set b. P c" "m \<noteq> []" "\<not> P (hd m)" "\<not> P (last m)"
  shows "rev (dropWhile P (rev (dropWhile P (a @ m @ b)))) = m"
  unfolding dropWhile_sandwich[OF assms(1,3,4)] stripEnd_sandwich[OF assms(2,3,5)] ..

lemma strip_decomp:
  assumes "rev (dropWhile P (rev (dropWhile P s))) = k" "k \<noteq> []"
  shows "\<exists>a b. s = a @ k @ b \<and> (\<forall>c\<in>set a. P c) \<and> (\<forall>c\<in>set b. P c)
           \<and> \<not> P (hd k) \<and> \<not> P (last k)"
proof -
  let ?d = "dropWhile P s"
  let ?b = "rev (takeWhile P (rev ?d))"
  have t: "k = rev (dropWhile P (rev ?d))" using assms(1) by simp
  have d: "?d = k @ ?b"
    unfolding t by (metis rev_append rev_rev_ident takeWhile_dropWhile_id)
  have s: "s = takeWhile P s @ k @ ?b"
    using d by (metis takeWhile_dropWhile_id)
  have a: "\<forall>c\<in>set (takeWhile P s). P c" by (auto dest: set_takeWhileD)
  have b: "\<forall>c\<in>set ?b. P c" by (auto dest: set_takeWhileD)
  have dn: "?d \<noteq> []" using assms(2) d by (metis append_is_Nil_conv)
  have "hd k = hd ?d" using assms(2) d by (metis hd_append2)
  then have h: "\<not> P (hd k)" using dn hd_dropWhile[of P s] by simp
  have "dropWhile P (rev ?d) \<noteq> []" using assms(2) t by simp
  then have "\<not> P (hd (dropWhile P (rev ?d)))" by (rule hd_dropWhile)
  then have l: "\<not> P (last k)"
    using assms(2) t by (simp add: last_rev)
  show ?thesis using s a b h l by blast
qed


lemma trim_sandwich:
  assumes "\<forall>c\<in>set a. isSpace c" "\<forall>c\<in>set b. isSpace c" "m \<noteq> []"
    "\<not> isSpace (hd m)" "\<not> isSpace (last m)"
  shows "trim (a @ m @ b) = m"
  unfolding trim_def trimEnd_def using assms by (rule strip_sandwich)

lemma trim_decomp:
  assumes "trim s \<noteq> []"
  shows "\<exists>a b. s = a @ trim s @ b \<and> (\<forall>c\<in>set a. isSpace c) \<and> (\<forall>c\<in>set b. isSpace c)
           \<and> \<not> isSpace (hd (trim s)) \<and> \<not> isSpace (last (trim s))"
proof -
  have "rev (dropWhile isSpace (rev (dropWhile isSpace s))) = trim s"
    by (simp add: trim_def trimEnd_def)
  from strip_decomp[OF this assms] show ?thesis .
qed

lemma trim_idem: "trim (trim s) = trim s"
proof (cases "trim s = []")
  case True
  have "trim [] = []" by (simp add: trim_def trimEnd_def)
  with True show ?thesis by simp
next
  case False
  from trim_decomp[OF False] have "\<not> isSpace (hd (trim s))" "\<not> isSpace (last (trim s))" by auto
  with False trim_sandwich[of "[]" "[]" "trim s"] show ?thesis by simp
qed
















section \<open>Properties of the workflow\<close>
































text \<open>
  C4. With a blueprint on the project, the planning phase goes on with one task per
  section of type chapter, in the order of the sections: each task has the role
  \<^verbatim>\<open>WRITER\<close>, the section's title, and the description built from the section. Planning
  makes no call of \<^verbatim>\<open>generateWithFallback\<close>, hence no model call.
\<close>

theorem blueprint_plan:
  assumes bp: "blueprint project = Some bp"
  shows "\<exists>tasks ls'.
           planningPhase JSON_parse insts project = (Inr (Some tasks), ls', []) \<and>
           length tasks = length (filter (\<lambda>s. sectionType s = chapter_t) (sections bp)) \<and>
           map (\<lambda>t. getProp t ''role'') tasks
             = map (\<lambda>s. Inr WRITER) (filter (\<lambda>s. sectionType s = chapter_t) (sections bp)) \<and>
           map (\<lambda>t. getProp t ''title'') tasks
             = map (\<lambda>s. Inr (JStr (sectionTitle s)))
                 (filter (\<lambda>s. sectionType s = chapter_t) (sections bp)) \<and>
           map (\<lambda>t. getProp t ''description'') tasks
             = map (\<lambda>s. Inr (JStr (''Write '' @ sectionTitle s @ ''. '' @ sectionDescription s)))
                 (filter (\<lambda>s. sectionType s = chapter_t) (sections bp))"
  using bp by (simp add: planningPhase_def blueprintPlan_def blueprintTask_def)

theorem blueprint_plan_witness:
  "planningPhase parseKnown (\<lambda>r. [geminiNoKey]) \<lparr>blueprint = Some twoChapters\<rparr>
     = (Inr (Some [blueprintTask twoChapters (sections twoChapters ! 0),
                   blueprintTask twoChapters (sections twoChapters ! 2)]),
        [\<lparr>agent = ARCHITECT, message = ''Using approved blueprint plan.'', status = success,
          modelUsed = None\<rparr>],
        [])"
  using blueprint_plan [of "\<lparr>blueprint = Some twoChapters\<rparr>" twoChapters parseKnown
      "\<lambda>r. [geminiNoKey]"]
  by (simp add: planningPhase_def blueprintPlan_def twoChapters_def log_def)

text \<open>
  C2, where the code departs from it. The architect's answer is not JSON:
  \<^verbatim>\<open>safeParseJSON\<close> returns its fallback \<^verbatim>\<open>{ tasks: [] }\<close>, which passes the guard
  \<^verbatim>\<open>!plan.tasks || !Array.isArray(plan.tasks)\<close>. The run produces no block, but it does not
  end as a failure: no entry has the status failed, and the plan is reported as created,
  with 0 tasks and the status success. The same holds for an answer whose task list is
  empty.
\<close>

theorem unparseable_plan_reported_as_success:
  "parseKnown (cleanText (js ''I cannot help with that.'')) = None
   \<and> drafts ArchitectCall = Inr (js ''I cannot help with that.'')
   \<and> runMultiAgentWorkflow parseKnown (answering drafts) \<lparr>blueprint = None\<rparr>
   = ([],
      [\<lparr>agent = PROJECT_MANAGER, message = ''Initiating Parallel Planning Phase...'',
        status = thinking, modelUsed = None\<rparr>,
       \<lparr>agent = ARCHITECT, message = ''Structuring narrative arc...'',
        status = thinking, modelUsed = None\<rparr>,
       \<lparr>agent = VISIONARY, message = ''Defining stylistic palette...'',
        status = thinking, modelUsed = None\<rparr>,
       \<lparr>agent = ARCHITECT, message = ''Plan created with 0 tasks.'',
        status = success, modelUsed = Some MISTRAL\<rparr>,
       \<lparr>agent = VISIONARY, message = ''Style guide established.'',
        status = success, modelUsed = Some MISTRAL\<rparr>],
      [(ArchitectCall, [MISTRAL]), (VisionaryCall, [MISTRAL])])
   \<and> emptyPlan ArchitectCall = Inr (js ''{\"tasks\":[]}'')
   \<and> map status
        (fst (snd (runMultiAgentWorkflow parseKnown (answering emptyPlan)
                     \<lparr>blueprint = None\<rparr>)))
     = [thinking, thinking, thinking, success, success]"
  by (simp add: runMultiAgentWorkflow_def planningPhase_def dynamicPlanning_def
      generateWithFallback_def tryOrderOf_def addAll_def setAdd_def getProvider_def
      attemptLoop.simps callGenerateText_def trim_def trimEnd_def isSpace_def js_def
      answering_def safeParseJSON_def cleanText_def stripLeading_def
      stripClosingFence_def startsWith_def endsWith_def parseKnown_def isJsonSpace_def
      knownTexts_def log_def personaEntries_def getPersonaById_def processPlan_def
      showNat.simps)

end
